theory Spec2Isabelle
  imports Complex_Main
begin

section \<open>Numbers, errors and dictionaries\<close>

text \<open>
  The engine of \<^verbatim>\<open>Final_Model.py\<close> computes with Python numbers. They are modelled as
  \<^typ>\<open>real\<close>: every product, sum and quotient is exact, so rounding is outside the
  model. What is inside the model is the one arithmetic exception the engine can raise:
  Python's \<^verbatim>\<open>/\<close> raises \<^verbatim>\<open>ZeroDivisionError\<close> on a zero divisor, where HOL's
  \<open>x / 0\<close> is \<open>0\<close>. Every division of the source whose divisor is not a non-zero literal
  is therefore written with \<open>py_div\<close>, and every function that divides returns
  \<open>error + result\<close>.
\<close>

datatype error = ZeroDivisionError | KeyError

definition py_div :: "real \<Rightarrow> real \<Rightarrow> error + real" where
  "py_div a b = (if b = 0 then Inl ZeroDivisionError else Inr (a / b))"

text \<open>\<^verbatim>\<open>d.get(k, default)\<close> on a dictionary.\<close>

definition dict_get :: "('k \<rightharpoonup> 'v) \<Rightarrow> 'k \<Rightarrow> 'v \<Rightarrow> 'v" where
  "dict_get d k dflt = (case d k of None \<Rightarrow> dflt | Some v \<Rightarrow> v)"

text \<open>
  \<^verbatim>\<open>d[k]\<close> on a dictionary whose iteration order matters (an association list in
  insertion order): a missing key raises \<^verbatim>\<open>KeyError\<close>.
\<close>

definition dict_index :: "('k \<times> 'v) list \<Rightarrow> 'k \<Rightarrow> error + 'v" where
  "dict_index d k = (case map_of d k of None \<Rightarrow> Inl KeyError | Some v \<Rightarrow> Inr v)"

text \<open>\<^verbatim>\<open>float('inf')\<close> is the only non-real number the engine produces.\<close>

datatype py_float = Finite real | PosInf


section \<open>Configuration records\<close>

record BuildingConfig =
  total_area :: real
  exhibition_percent :: real
  old_building_percent :: real
  new_building_percent :: real
  total_site_energy :: real
  eui :: real
  hvac_percent :: real
  lighting_percent :: real
  other_percent :: real
  current_led_percentage :: real
  new_building_efficiency_factor :: real
  fan_percent_of_hvac :: real

definition BuildingConfig_default :: BuildingConfig where
  "BuildingConfig_default =
     \<lparr> total_area = 630800,
       exhibition_percent = 49 / 100,
       old_building_percent = 78 / 100,
       new_building_percent = 22 / 100,
       total_site_energy = 176424575,
       eui = 2797 / 10,
       hvac_percent = 85 / 100,
       lighting_percent = 5 / 100,
       other_percent = 10 / 100,
       current_led_percentage = 70 / 100,
       new_building_efficiency_factor = 85 / 100,
       fan_percent_of_hvac = 25 / 100 \<rparr>"

record InterventionConfig =
  hvac_rightsizing_factor :: real
  humidity_control_factor :: real
  vfd_factor :: real
  led_conversion_factor :: real
  window_upgrade_factor :: real

definition InterventionConfig_default :: InterventionConfig where
  "InterventionConfig_default =
     \<lparr> hvac_rightsizing_factor = 30 / 100,
       humidity_control_factor = 10 / 100,
       vfd_factor = 40 / 100,
       led_conversion_factor = 70 / 100,
       window_upgrade_factor = 10 / 100 \<rparr>"

record CostFactors =
  elec_rate :: real
  gas_rate :: real
  kbtu_to_kwh :: real
  kbtu_to_therm :: real
  co2_factor_elec :: real
  co2_factor_gas :: real

definition CostFactors_default :: CostFactors where
  "CostFactors_default =
     \<lparr> elec_rate = 305 / 1000,
       gas_rate = 251 / 100,
       kbtu_to_kwh = 3412 / 1000,
       kbtu_to_therm = 100,
       co2_factor_elec = 2628 / 10000000,
       co2_factor_gas = 1812 / 10000000 \<rparr>"

text \<open>
  The selection passed to the engine: a dictionary from measure name to a dictionary
  from zone name (\<^verbatim>\<open>'old'\<close>, \<^verbatim>\<open>'new'\<close>) to an adoption percentage.
\<close>

type_synonym selection = "string \<rightharpoonup> (string \<rightharpoonup> real)"


section \<open>The engine object and its construction\<close>

text \<open>
  \<^verbatim>\<open>MFAEnergySavingsTool.__init__\<close> assigns the attributes of \<^verbatim>\<open>self\<close> in three
  stages. Each stage is a record extending the one before, so that a method can only
  read attributes that have been assigned when it runs.
\<close>

record tool_areas =
  config :: BuildingConfig
  interventions_config :: InterventionConfig
  exhibition_area :: real
  old_building_area :: real
  new_building_area :: real

record tool_allocated = tool_areas +
  exhibition_energy :: real
  old_building_energy :: real
  new_building_energy :: real

record MFAEnergySavingsTool = tool_allocated +
  old_building_hvac :: real
  old_building_lighting :: real
  old_building_other :: real
  old_building_fan :: real
  new_building_hvac :: real
  new_building_lighting :: real
  new_building_other :: real
  new_building_fan :: real
  total_hvac :: real
  total_lighting :: real
  total_other :: real
  total_fan :: real

definition calculate_energy_allocation :: "tool_areas \<Rightarrow> error + tool_allocated" where
  "calculate_energy_allocation self =
     (let exhibition_energy' = total_site_energy (config self) * exhibition_percent (config self);
          effective_old_area = old_building_area self;
          effective_new_area =
            new_building_area self * new_building_efficiency_factor (config self);
          total_effective_area = effective_old_area + effective_new_area
      in case py_div effective_old_area total_effective_area of
           Inl e \<Rightarrow> Inl e
         | Inr old_share \<Rightarrow>
             (case py_div effective_new_area total_effective_area of
                Inl e \<Rightarrow> Inl e
              | Inr new_share \<Rightarrow>
                  Inr (tool_areas.extend self
                    (tool_allocated.fields exhibition_energy'
                       (exhibition_energy' * old_share)
                       (exhibition_energy' * new_share)))))"

definition calculate_end_use_breakdown :: "tool_allocated \<Rightarrow> MFAEnergySavingsTool" where
  "calculate_end_use_breakdown self =
     (let old_hvac = old_building_energy self * hvac_percent (config self);
          old_lighting = old_building_energy self * lighting_percent (config self);
          old_other = old_building_energy self * other_percent (config self);
          old_fan = old_hvac * fan_percent_of_hvac (config self);
          new_hvac = new_building_energy self * hvac_percent (config self);
          new_lighting = new_building_energy self * lighting_percent (config self);
          new_other = new_building_energy self * other_percent (config self);
          new_fan = new_hvac * fan_percent_of_hvac (config self)
      in tool_allocated.extend self
           (MFAEnergySavingsTool.fields
              old_hvac old_lighting old_other old_fan
              new_hvac new_lighting new_other new_fan
              (old_hvac + new_hvac) (old_lighting + new_lighting)
              (old_other + new_other) (old_fan + new_fan)))"

definition init :: "BuildingConfig \<Rightarrow> InterventionConfig \<Rightarrow> error + MFAEnergySavingsTool" where
  "init cfg icfg =
     (let exhibition_area' = total_area cfg * exhibition_percent cfg;
          self = \<lparr> config = cfg,
                   interventions_config = icfg,
                   exhibition_area = exhibition_area',
                   old_building_area = exhibition_area' * old_building_percent cfg,
                   new_building_area = exhibition_area' * new_building_percent cfg \<rparr>
      in case calculate_energy_allocation self of
           Inl e \<Rightarrow> Inl e
         | Inr self' \<Rightarrow> Inr (calculate_end_use_breakdown self'))"


section \<open>Baseline report\<close>

record baseline_report =
  Total_Area :: real
  Exhibition_Area :: real
  Old_Building_Exhibition_Area :: real
  New_Building_Exhibition_Area :: real
  Total_Energy :: real
  Exhibition_Energy :: real
  Old_Building_Energy :: real
  New_Building_Energy :: real
  EUI :: real
  New_Building_Efficiency_Factor :: real
  Effective_New_Building_Area :: real
  Old_Building_EUI :: real
  New_Building_EUI :: real
  EUI_Ratio :: real

text \<open>\<^verbatim>\<open>a / b if b > 0 else 0\<close>: the guarded quotient of \<^verbatim>\<open>calculate_baseline\<close>.\<close>

definition guarded_quotient :: "real \<Rightarrow> real \<Rightarrow> error + real" where
  "guarded_quotient a b = (if b > 0 then py_div a b else Inr 0)"

definition calculate_baseline :: "MFAEnergySavingsTool \<Rightarrow> error + baseline_report" where
  "calculate_baseline self =
     (let effective_new_area =
            new_building_area self * new_building_efficiency_factor (config self)
      in case guarded_quotient (old_building_energy self) (old_building_area self) of
           Inl e \<Rightarrow> Inl e
         | Inr old_building_eui \<Rightarrow>
             (case guarded_quotient (new_building_energy self) (new_building_area self) of
                Inl e \<Rightarrow> Inl e
              | Inr new_building_eui \<Rightarrow>
                  (case guarded_quotient new_building_eui old_building_eui of
                     Inl e \<Rightarrow> Inl e
                   | Inr ratio \<Rightarrow>
                       Inr \<lparr> Total_Area = total_area (config self),
                             Exhibition_Area = exhibition_area self,
                             Old_Building_Exhibition_Area = old_building_area self,
                             New_Building_Exhibition_Area = new_building_area self,
                             Total_Energy = total_site_energy (config self),
                             Exhibition_Energy = exhibition_energy self,
                             Old_Building_Energy = old_building_energy self,
                             New_Building_Energy = new_building_energy self,
                             EUI = eui (config self),
                             New_Building_Efficiency_Factor =
                               new_building_efficiency_factor (config self),
                             Effective_New_Building_Area = effective_new_area,
                             Old_Building_EUI = old_building_eui,
                             New_Building_EUI = new_building_eui,
                             EUI_Ratio = ratio \<rparr>)))"


section \<open>Per-measure savings\<close>

text \<open>
  Each helper returns \<open>0\<close> when its measure is not a key of the selection; otherwise
  it reads the two adoption percentages with \<^verbatim>\<open>.get(zone, 0)\<close> and divides them by
  the literal \<^verbatim>\<open>100.0\<close>.
\<close>

definition calculate_hvac_rightsizing_savings :: "MFAEnergySavingsTool \<Rightarrow> selection \<Rightarrow> real" where
  "calculate_hvac_rightsizing_savings self interventions =
     (case interventions ''hvac_rightsizing'' of
        None \<Rightarrow> 0
      | Some d \<Rightarrow>
          (let old_impl = dict_get d ''old'' 0 / 100;
               new_impl = dict_get d ''new'' 0 / 100
           in old_building_hvac self * hvac_rightsizing_factor (interventions_config self) * old_impl +
              new_building_hvac self * hvac_rightsizing_factor (interventions_config self) * new_impl))"

definition calculate_humidity_control_savings :: "MFAEnergySavingsTool \<Rightarrow> selection \<Rightarrow> real" where
  "calculate_humidity_control_savings self interventions =
     (case interventions ''humidity_control'' of
        None \<Rightarrow> 0
      | Some d \<Rightarrow>
          (let old_impl = dict_get d ''old'' 0 / 100;
               new_impl = dict_get d ''new'' 0 / 100
           in old_building_hvac self * humidity_control_factor (interventions_config self) * old_impl +
              new_building_hvac self * humidity_control_factor (interventions_config self) * new_impl))"

definition calculate_vfd_savings :: "MFAEnergySavingsTool \<Rightarrow> selection \<Rightarrow> real" where
  "calculate_vfd_savings self interventions =
     (case interventions ''vfd'' of
        None \<Rightarrow> 0
      | Some d \<Rightarrow>
          (let old_impl = dict_get d ''old'' 0 / 100;
               new_impl = dict_get d ''new'' 0 / 100
           in old_building_fan self * vfd_factor (interventions_config self) * old_impl +
              new_building_fan self * vfd_factor (interventions_config self) * new_impl))"

definition calculate_led_conversion_savings :: "MFAEnergySavingsTool \<Rightarrow> selection \<Rightarrow> real" where
  "calculate_led_conversion_savings self interventions =
     (case interventions ''led_conversion'' of
        None \<Rightarrow> 0
      | Some d \<Rightarrow>
          (let old_impl = dict_get d ''old'' 0 / 100;
               new_impl = dict_get d ''new'' 0 / 100;
               old_effective_impl = max 0 (old_impl - current_led_percentage (config self));
               new_effective_impl = max 0 (new_impl - current_led_percentage (config self))
           in old_building_lighting self * led_conversion_factor (interventions_config self) *
                old_effective_impl +
              new_building_lighting self * led_conversion_factor (interventions_config self) *
                new_effective_impl))"

definition calculate_window_upgrade_savings :: "MFAEnergySavingsTool \<Rightarrow> selection \<Rightarrow> real" where
  "calculate_window_upgrade_savings self interventions =
     (case interventions ''window_upgrades'' of
        None \<Rightarrow> 0
      | Some d \<Rightarrow>
          (let old_impl = dict_get d ''old'' 0 / 100;
               new_impl = dict_get d ''new'' 0 / 100
           in old_building_hvac self * window_upgrade_factor (interventions_config self) * old_impl +
              new_building_hvac self * window_upgrade_factor (interventions_config self) * new_impl))"


section \<open>Aggregate savings\<close>

record savings_report =
  Individual_Savings :: "(string \<times> real) list"
  Total_Savings :: real
  New_Energy_Use :: real
  New_EUI :: real
  Percent_Savings :: real
  Baseline_EUI :: real

text \<open>
  \<^verbatim>\<open>sum(savings[measure] for measure in [...])\<close>: the built-in starts from \<open>0\<close> and adds
  the looked-up values from left to right.
\<close>

fun sum_measures :: "(string \<times> real) list \<Rightarrow> real \<Rightarrow> string list \<Rightarrow> error + real" where
  "sum_measures savings acc [] = Inr acc"
| "sum_measures savings acc (key # rest) =
     (case dict_index savings key of
        Inl e \<Rightarrow> Inl e
      | Inr v \<Rightarrow> sum_measures savings (acc + v) rest)"

definition individual_savings :: "MFAEnergySavingsTool \<Rightarrow> selection \<Rightarrow> (string \<times> real) list" where
  "individual_savings self interventions =
     [ (''hvac_rightsizing'', calculate_hvac_rightsizing_savings self interventions),
       (''humidity_control'', calculate_humidity_control_savings self interventions),
       (''vfd'', calculate_vfd_savings self interventions),
       (''led_conversion'', calculate_led_conversion_savings self interventions),
       (''window_upgrades'', calculate_window_upgrade_savings self interventions) ]"

definition calculate_savings :: "MFAEnergySavingsTool \<Rightarrow> selection \<Rightarrow> error + savings_report" where
  "calculate_savings self interventions =
     (let savings = individual_savings self interventions
      in case sum_measures savings 0
                [''hvac_rightsizing'', ''humidity_control'', ''vfd'', ''window_upgrades''] of
           Inl e \<Rightarrow> Inl e
         | Inr hvac_sum \<Rightarrow>
             (case dict_index savings ''led_conversion'' of
                Inl e \<Rightarrow> Inl e
              | Inr lighting_savings \<Rightarrow>
                  (let hvac_savings = min hvac_sum (95 / 100 * total_hvac self);
                       total_savings = hvac_savings + lighting_savings;
                       new_energy_use = total_site_energy (config self) - total_savings
                   in case py_div new_energy_use (total_area (config self)) of
                        Inl e \<Rightarrow> Inl e
                      | Inr new_eui \<Rightarrow>
                          (case py_div total_savings (total_site_energy (config self)) of
                             Inl e \<Rightarrow> Inl e
                           | Inr fraction \<Rightarrow>
                               Inr \<lparr> Individual_Savings = savings,
                                     Total_Savings = total_savings,
                                     New_Energy_Use = new_energy_use,
                                     New_EUI = new_eui,
                                     Percent_Savings = fraction * 100,
                                     Baseline_EUI = eui (config self) \<rparr>))))"


section \<open>Costs, payback and emissions\<close>

record zone_costs =
  cost_old :: real
  cost_new :: real

record source_split =
  elec :: real
  gas :: real

definition implementation_costs :: "(string \<times> zone_costs) list" where
  "implementation_costs =
     [ (''hvac_rightsizing'', \<lparr>cost_old = 15, cost_new = 10\<rparr>),
       (''humidity_control'', \<lparr>cost_old = 5, cost_new = 3\<rparr>),
       (''vfd'', \<lparr>cost_old = 2, cost_new = 3 / 2\<rparr>),
       (''led_conversion'', \<lparr>cost_old = 8, cost_new = 8\<rparr>),
       (''window_upgrades'', \<lparr>cost_old = 25, cost_new = 10\<rparr>) ]"

definition elec_gas_split :: "(string \<times> source_split) list" where
  "elec_gas_split =
     [ (''hvac_rightsizing'', \<lparr>elec = 40 / 100, gas = 60 / 100\<rparr>),
       (''humidity_control'', \<lparr>elec = 30 / 100, gas = 70 / 100\<rparr>),
       (''vfd'', \<lparr>elec = 1, gas = 0\<rparr>),
       (''led_conversion'', \<lparr>elec = 1, gas = 0\<rparr>),
       (''window_upgrades'', \<lparr>elec = 25 / 100, gas = 75 / 100\<rparr>) ]"

text \<open>
  The first loop of \<^verbatim>\<open>estimate_costs_and_payback\<close>: over the items of the individual
  savings, accumulating \<^verbatim>\<open>electricity_savings_kbtu\<close> and \<^verbatim>\<open>gas_savings_kbtu\<close>.
\<close>

fun split_by_source :: "(string \<times> real) list \<Rightarrow> real \<times> real \<Rightarrow> real \<times> real" where
  "split_by_source [] acc = acc"
| "split_by_source ((key, savings) # rest) (electricity_savings_kbtu, gas_savings_kbtu) =
     (case map_of elec_gas_split key of
        None \<Rightarrow> split_by_source rest (electricity_savings_kbtu, gas_savings_kbtu)
      | Some sp \<Rightarrow>
          split_by_source rest
            (electricity_savings_kbtu + savings * elec sp,
             gas_savings_kbtu + savings * gas sp))"

text \<open>
  The second loop: over the items of the cost table, adding the cost of each measure
  that is a key of the selection.
\<close>

fun add_implementation_costs ::
  "MFAEnergySavingsTool \<Rightarrow> selection \<Rightarrow> (string \<times> zone_costs) list \<Rightarrow> real \<Rightarrow> real" where
  "add_implementation_costs self interventions [] total_cost = total_cost"
| "add_implementation_costs self interventions ((key, details) # rest) total_cost =
     (case interventions key of
        None \<Rightarrow> add_implementation_costs self interventions rest total_cost
      | Some d \<Rightarrow>
          (let old_impl = dict_get d ''old'' 0 / 100;
               new_impl = dict_get d ''new'' 0 / 100
           in add_implementation_costs self interventions rest
                (total_cost + (old_building_area self * cost_old details * old_impl +
                               new_building_area self * cost_new details * new_impl))))"

text \<open>
  \<^verbatim>\<open>total_cost / annual_cost_savings if annual_cost_savings > 0 else float('inf')\<close>.
\<close>

definition simple_payback :: "real \<Rightarrow> real \<Rightarrow> error + py_float" where
  "simple_payback total_cost annual_cost_savings =
     (if annual_cost_savings > 0
      then (case py_div total_cost annual_cost_savings of
              Inl e \<Rightarrow> Inl e
            | Inr years \<Rightarrow> Inr (Finite years))
      else Inr PosInf)"

record financial_report =
  Annual_Cost_Savings :: real
  Electricity_Savings :: real
  Natural_Gas_Savings :: real
  Implementation_Cost_Estimate :: real
  Simple_Payback :: py_float
  CO2_Reduction :: real
  Electricity_CO2_Reduction :: real
  Natural_Gas_CO2_Reduction :: real

definition estimate_costs_and_payback ::
  "MFAEnergySavingsTool \<Rightarrow> selection \<Rightarrow> savings_report \<Rightarrow> CostFactors \<Rightarrow> error + financial_report" where
  "estimate_costs_and_payback self interventions savings_results cost_factors =
     (case split_by_source (Individual_Savings savings_results) (0, 0) of
        (electricity_savings_kbtu, gas_savings_kbtu) \<Rightarrow>
          (case py_div electricity_savings_kbtu (kbtu_to_kwh cost_factors) of
             Inl e \<Rightarrow> Inl e
           | Inr electricity_savings_kwh \<Rightarrow>
               (case py_div gas_savings_kbtu (kbtu_to_therm cost_factors) of
                  Inl e \<Rightarrow> Inl e
                | Inr gas_savings_therm \<Rightarrow>
                    (let electricity_cost_savings =
                           electricity_savings_kwh * elec_rate cost_factors;
                         gas_cost_savings = gas_savings_therm * gas_rate cost_factors;
                         annual_cost_savings = electricity_cost_savings + gas_cost_savings;
                         co2_reduction_elec =
                           electricity_savings_kwh * co2_factor_elec cost_factors;
                         co2_reduction_gas = gas_savings_therm * co2_factor_gas cost_factors;
                         total_co2_reduction = co2_reduction_elec + co2_reduction_gas;
                         total_cost =
                           add_implementation_costs self interventions implementation_costs 0
                     in case simple_payback total_cost annual_cost_savings of
                          Inl e \<Rightarrow> Inl e
                        | Inr payback \<Rightarrow>
                            Inr \<lparr> Annual_Cost_Savings = annual_cost_savings,
                                  Electricity_Savings = electricity_cost_savings,
                                  Natural_Gas_Savings = gas_cost_savings,
                                  Implementation_Cost_Estimate = total_cost,
                                  Simple_Payback = payback,
                                  CO2_Reduction = total_co2_reduction,
                                  Electricity_CO2_Reduction = co2_reduction_elec,
                                  Natural_Gas_CO2_Reduction = co2_reduction_gas \<rparr>))))"


section \<open>The default engine and the default selection\<close>

text \<open>
  \<^verbatim>\<open>create_streamlit_app\<close> builds the engine from the default configurations, and the
  sliders of \<^verbatim>\<open>create_intervention_controls\<close> start at the selection below.
\<close>

definition mfa_tool :: MFAEnergySavingsTool where
  "mfa_tool = projr (init BuildingConfig_default InterventionConfig_default)"

definition default_interventions :: selection where
  "default_interventions =
     [ ''hvac_rightsizing'' \<mapsto> [''old'' \<mapsto> 75, ''new'' \<mapsto> 25],
       ''humidity_control'' \<mapsto> [''old'' \<mapsto> 90, ''new'' \<mapsto> 50],
       ''vfd'' \<mapsto> [''old'' \<mapsto> 80, ''new'' \<mapsto> 40],
       ''led_conversion'' \<mapsto> [''old'' \<mapsto> 95, ''new'' \<mapsto> 60],
       ''window_upgrades'' \<mapsto> [''old'' \<mapsto> 70, ''new'' \<mapsto> 0] ]"


text \<open>
  The same engine with an HVAC rightsizing factor of \<open>1\<close>: at full adoption the
  rightsizing savings equal the whole baseline HVAC energy, so the 95 percent cap binds.
\<close>

definition capped_tool :: MFAEnergySavingsTool where
  "capped_tool =
     projr (init BuildingConfig_default (InterventionConfig_default\<lparr>hvac_rightsizing_factor := 1\<rparr>))"


section \<open>Basic facts\<close>

lemmas tool_defs = init_def calculate_energy_allocation_def calculate_end_use_breakdown_def
  py_div_def tool_areas.defs tool_allocated.defs MFAEnergySavingsTool.defs

lemmas savings_defs = calculate_hvac_rightsizing_savings_def
  calculate_humidity_control_savings_def calculate_vfd_savings_def
  calculate_led_conversion_savings_def calculate_window_upgrade_savings_def dict_get_def

lemma init_default: "init BuildingConfig_default InterventionConfig_default = Inr mfa_tool"
  by (simp add: mfa_tool_def tool_defs BuildingConfig_default_def Let_def)

text \<open>
  \<^verbatim>\<open>calculate_savings\<close> fails exactly when one of its two divisors is zero; the
  dictionary it indexes always has the five keys, so no \<^verbatim>\<open>KeyError\<close> arises.
\<close>

lemma calculate_savings_cases:
  "calculate_savings self iv =
     (if total_area (config self) = 0 \<or> total_site_energy (config self) = 0
      then Inl ZeroDivisionError
      else Inr \<lparr> Individual_Savings = individual_savings self iv,
                 Total_Savings =
                   min (calculate_hvac_rightsizing_savings self iv +
                        calculate_humidity_control_savings self iv +
                        calculate_vfd_savings self iv +
                        calculate_window_upgrade_savings self iv)
                       (95 / 100 * total_hvac self) +
                   calculate_led_conversion_savings self iv,
                 New_Energy_Use =
                   total_site_energy (config self) -
                   (min (calculate_hvac_rightsizing_savings self iv +
                         calculate_humidity_control_savings self iv +
                         calculate_vfd_savings self iv +
                         calculate_window_upgrade_savings self iv)
                        (95 / 100 * total_hvac self) +
                    calculate_led_conversion_savings self iv),
                 New_EUI =
                   (total_site_energy (config self) -
                    (min (calculate_hvac_rightsizing_savings self iv +
                          calculate_humidity_control_savings self iv +
                          calculate_vfd_savings self iv +
                          calculate_window_upgrade_savings self iv)
                         (95 / 100 * total_hvac self) +
                     calculate_led_conversion_savings self iv)) /
                   total_area (config self),
                 Percent_Savings =
                   (min (calculate_hvac_rightsizing_savings self iv +
                         calculate_humidity_control_savings self iv +
                         calculate_vfd_savings self iv +
                         calculate_window_upgrade_savings self iv)
                        (95 / 100 * total_hvac self) +
                    calculate_led_conversion_savings self iv) /
                   total_site_energy (config self) * 100,
                 Baseline_EUI = eui (config self) \<rparr>)"
  by (simp add: calculate_savings_def individual_savings_def dict_index_def py_div_def Let_def)

lemma simple_payback_total:
  "simple_payback total_cost annual_cost_savings =
     Inr (if annual_cost_savings > 0 then Finite (total_cost / annual_cost_savings) else PosInf)"
  by (simp add: simple_payback_def py_div_def)


lemma default_financials:
  "estimate_costs_and_payback mfa_tool default_interventions
     (projr (calculate_savings mfa_tool default_interventions)) CostFactors_default =
   Inr \<lparr> Annual_Cost_Savings = 22438437708873213069 / 13197616000000,
         Electricity_Savings = 13714814806020839 / 10558092800,
         Natural_Gas_Savings = 6207408207909923 / 15472000000,
         Implementation_Cost_Estimate = 2718386867 / 250,
         Simple_Payback = Finite (2928671511029312000 / 457927300181085981),
         CO2_Reduction = 378844420046503979757 / 329940400000000000,
         Electricity_CO2_Reduction = 147715300451732643 / 131976160000000,
         Natural_Gas_CO2_Reduction = 11203011626227869 / 386800000000000 \<rparr>"
  by (simp add: estimate_costs_and_payback_def simple_payback_total implementation_costs_def
      elec_gas_split_def calculate_savings_cases individual_savings_def savings_defs
      default_interventions_def mfa_tool_def tool_defs BuildingConfig_default_def
      InterventionConfig_default_def CostFactors_default_def Let_def)


section \<open>Division by zero\<close>

text \<open>
  The quotients of \<^verbatim>\<open>calculate_baseline\<close> are guarded by \<^verbatim>\<open>> 0\<close> tests, so the
  baseline report of an engine that has been built never raises.
\<close>

lemma guarded_quotient_total:
  "guarded_quotient a b = Inr (if b > 0 then a / b else 0)"
  by (simp add: guarded_quotient_def py_div_def)

lemma calculate_baseline_total: "\<not> isl (calculate_baseline self)"
  by (simp add: calculate_baseline_def guarded_quotient_total Let_def)

text \<open>
  Claim C1 says that no operation of the engine raises a division-by-zero error, for any
  \<^verbatim>\<open>BuildingConfig\<close>, and names engine construction and \<^verbatim>\<open>calculate_savings\<close> in
  particular. The source guards the quotients of \<^verbatim>\<open>calculate_baseline\<close> and the
  payback quotient, but not the quotients of \<^verbatim>\<open>calculate_energy_allocation\<close> and
  \<^verbatim>\<open>calculate_savings\<close>. With the default configuration changed to
  \<^verbatim>\<open>total_area = 0\<close> the constructor raises \<^verbatim>\<open>ZeroDivisionError\<close>; with it changed
  to \<^verbatim>\<open>total_site_energy = 0\<close> the engine is built and \<^verbatim>\<open>calculate_savings\<close> raises
  on the empty selection.
\<close>

theorem unguarded_divisions_raise:
  "init (BuildingConfig_default\<lparr>total_area := 0\<rparr>) InterventionConfig_default =
     Inl ZeroDivisionError \<and>
   \<not> isl (init (BuildingConfig_default\<lparr>total_site_energy := 0\<rparr>) InterventionConfig_default) \<and>
   calculate_savings
     (projr (init (BuildingConfig_default\<lparr>total_site_energy := 0\<rparr>) InterventionConfig_default))
     Map.empty = Inl ZeroDivisionError"
  by (simp add: calculate_savings_cases tool_defs BuildingConfig_default_def Let_def)


section \<open>Default zone areas\<close>

text \<open>
  Claim C2, as amended: with the default \<^verbatim>\<open>BuildingConfig\<close> the engine is built, its
  old-zone exhibition area is \<open>630800 \<times> 0.49 \<times> 0.78 = 241091.76\<close> square feet and its
  new-zone exhibition area is \<open>630800 \<times> 0.49 \<times> 0.22 = 68000.24\<close> square feet.
\<close>

theorem default_zone_areas:
  "map_sum id old_building_area (init BuildingConfig_default InterventionConfig_default) =
     Inr (630800 * (49 / 100) * (78 / 100)) \<and>
   map_sum id new_building_area (init BuildingConfig_default InterventionConfig_default) =
     Inr (630800 * (49 / 100) * (22 / 100)) \<and>
   (630800 * (49 / 100) * (78 / 100) :: real) = 24109176 / 100 \<and>
   (630800 * (49 / 100) * (22 / 100) :: real) = 6800024 / 100"
  by (simp add: tool_defs BuildingConfig_default_def Let_def)

text \<open>
  The figures of claim C2 as stated, 241214.76 and 68005.24, are not the products: the
  areas of the default engine lie 123 and 5 square feet below them.
\<close>

theorem stated_zone_areas_off:
  "map_sum id old_building_area (init BuildingConfig_default InterventionConfig_default) =
     Inr (24121476 / 100 - 123) \<and>
   map_sum id new_building_area (init BuildingConfig_default InterventionConfig_default) =
     Inr (6800524 / 100 - 5)"
  by (simp add: tool_defs BuildingConfig_default_def Let_def)


section \<open>The cap on HVAC-adjacent savings\<close>

text \<open>
  Claim C3: for every selection, whatever its adoption percentages, the total savings
  reported by \<^verbatim>\<open>calculate_savings\<close> is the sum of the four HVAC-adjacent savings
  capped at 95 percent of the total baseline HVAC energy, plus the LED savings, which
  are not capped; so the HVAC-adjacent part of the total is at most
  \<open>0.95 \<times> total_hvac\<close>. The report exists whenever the two divisors of
  \<^verbatim>\<open>calculate_savings\<close> are non-zero.
\<close>

theorem hvac_adjacent_cap:
  assumes "total_area (config self) \<noteq> 0" and "total_site_energy (config self) \<noteq> 0"
  shows "\<exists>r. calculate_savings self interventions = Inr r \<and>
           Individual_Savings r = individual_savings self interventions \<and>
           Total_Savings r =
             min (calculate_hvac_rightsizing_savings self interventions +
                  calculate_humidity_control_savings self interventions +
                  calculate_vfd_savings self interventions +
                  calculate_window_upgrade_savings self interventions)
                 (95 / 100 * total_hvac self) +
             calculate_led_conversion_savings self interventions \<and>
           Total_Savings r - calculate_led_conversion_savings self interventions
             \<le> 95 / 100 * total_hvac self"
  using assms
    min.cobounded2 [of "calculate_hvac_rightsizing_savings self interventions +
                        calculate_humidity_control_savings self interventions +
                        calculate_vfd_savings self interventions +
                        calculate_window_upgrade_savings self interventions"
                       "95 / 100 * total_hvac self"]
  by (simp add: calculate_savings_cases)

theorem hvac_adjacent_cap_witness:
  "total_area (config mfa_tool) \<noteq> 0 \<and> total_site_energy (config mfa_tool) \<noteq> 0 \<and>
   (\<exists>r. calculate_savings mfa_tool default_interventions = Inr r \<and>
        Total_Savings r = 472140129523629 / 15472000 \<and>
        Total_Savings r - 94401261591 / 154720 \<le> 95 / 100 * total_hvac mfa_tool)"
proof -
  have h1: "total_area (config mfa_tool) \<noteq> 0"
    and h2: "total_site_energy (config mfa_tool) \<noteq> 0"
    by (simp_all add: mfa_tool_def tool_defs BuildingConfig_default_def Let_def)
  from hvac_adjacent_cap [OF h1 h2, of default_interventions] obtain r where
    "calculate_savings mfa_tool default_interventions = Inr r"
    "Total_Savings r =
       min (calculate_hvac_rightsizing_savings mfa_tool default_interventions +
            calculate_humidity_control_savings mfa_tool default_interventions +
            calculate_vfd_savings mfa_tool default_interventions +
            calculate_window_upgrade_savings mfa_tool default_interventions)
           (95 / 100 * total_hvac mfa_tool) +
       calculate_led_conversion_savings mfa_tool default_interventions"
    "Total_Savings r - calculate_led_conversion_savings mfa_tool default_interventions
       \<le> 95 / 100 * total_hvac mfa_tool"
    by blast
  moreover have "calculate_led_conversion_savings mfa_tool default_interventions =
      94401261591 / 154720"
    by (simp add: savings_defs default_interventions_def mfa_tool_def tool_defs
        BuildingConfig_default_def InterventionConfig_default_def Let_def)
  moreover have
    "min (calculate_hvac_rightsizing_savings mfa_tool default_interventions +
          calculate_humidity_control_savings mfa_tool default_interventions +
          calculate_vfd_savings mfa_tool default_interventions +
          calculate_window_upgrade_savings mfa_tool default_interventions)
         (95 / 100 * total_hvac mfa_tool) +
     calculate_led_conversion_savings mfa_tool default_interventions =
     472140129523629 / 15472000"
    by (simp add: savings_defs default_interventions_def mfa_tool_def tool_defs
        BuildingConfig_default_def InterventionConfig_default_def Let_def)
  ultimately show ?thesis using h1 h2 by auto
qed


section \<open>LED conversion\<close>

text \<open>
  Claim C4: when \<^verbatim>\<open>led_conversion\<close> is selected, the adoption used for each zone is
  \<open>max 0 (requested / 100 - current_led_percentage)\<close>, computed for the old and the
  new zone separately; so the LED savings are exactly \<open>0\<close> when both requested
  percentages are at most \<open>100 \<times> current_led_percentage\<close>. A zone whose sub-key is
  missing requests \<open>0\<close>.
\<close>

theorem led_effective_adoption:
  assumes "interventions ''led_conversion'' = Some d"
  shows "calculate_led_conversion_savings self interventions =
           old_building_lighting self * led_conversion_factor (interventions_config self) *
             max 0 (dict_get d ''old'' 0 / 100 - current_led_percentage (config self)) +
           new_building_lighting self * led_conversion_factor (interventions_config self) *
             max 0 (dict_get d ''new'' 0 / 100 - current_led_percentage (config self)) \<and>
         (dict_get d ''old'' 0 \<le> 100 * current_led_percentage (config self) \<and>
          dict_get d ''new'' 0 \<le> 100 * current_led_percentage (config self) \<longrightarrow>
            calculate_led_conversion_savings self interventions = 0)"
proof -
  let ?cur = "current_led_percentage (config self)"
  have formula: "calculate_led_conversion_savings self interventions =
           old_building_lighting self * led_conversion_factor (interventions_config self) *
             max 0 (dict_get d ''old'' 0 / 100 - ?cur) +
           new_building_lighting self * led_conversion_factor (interventions_config self) *
             max 0 (dict_get d ''new'' 0 / 100 - ?cur)"
    using assms by (simp add: calculate_led_conversion_savings_def Let_def)
  have clamp: "max 0 (x / 100 - ?cur) = 0" if "x \<le> 100 * ?cur" for x :: real
    using that by (simp add: max_def)
  show ?thesis
    by (simp add: formula clamp)
qed

theorem led_effective_adoption_witness:
  "[''led_conversion'' \<mapsto> [''old'' \<mapsto> 70, ''new'' \<mapsto> 60]] ''led_conversion'' =
      Some [''old'' \<mapsto> 70, ''new'' \<mapsto> 60] \<and>
   dict_get [''old'' \<mapsto> 70, ''new'' \<mapsto> (60::real)] ''old'' 0
      \<le> 100 * current_led_percentage (config mfa_tool) \<and>
   dict_get [''old'' \<mapsto> 70, ''new'' \<mapsto> (60::real)] ''new'' 0
      \<le> 100 * current_led_percentage (config mfa_tool) \<and>
   calculate_led_conversion_savings mfa_tool
     [''led_conversion'' \<mapsto> [''old'' \<mapsto> 70, ''new'' \<mapsto> 60]] = 0"
  using led_effective_adoption
    [of "[''led_conversion'' \<mapsto> [''old'' \<mapsto> 70, ''new'' \<mapsto> 60]]"
        "[''old'' \<mapsto> 70, ''new'' \<mapsto> 60]" mfa_tool]
  by (simp add: dict_get_def mfa_tool_def tool_defs BuildingConfig_default_def Let_def)


section \<open>The empty selection\<close>

text \<open>
  Claim C5, as amended: for every engine whose total baseline HVAC energy is not
  negative and whose \<^verbatim>\<open>total_area\<close> and \<^verbatim>\<open>total_site_energy\<close> are not zero,
  \<^verbatim>\<open>calculate_savings\<close> on the empty selection returns a report with total savings
  \<open>0\<close> and new energy use equal to \<^verbatim>\<open>total_site_energy\<close>; and in any selection, on
  any engine, a measure whose key is absent has savings \<open>0\<close>.
\<close>

theorem empty_selection_saves_nothing:
  "(total_area (config self) \<noteq> 0 \<and> total_site_energy (config self) \<noteq> 0 \<and>
    0 \<le> total_hvac self \<longrightarrow>
      (\<exists>r. calculate_savings self Map.empty = Inr r \<and> Total_Savings r = 0 \<and>
           New_Energy_Use r = total_site_energy (config self))) \<and>
   (interventions ''hvac_rightsizing'' = None \<longrightarrow>
      calculate_hvac_rightsizing_savings self interventions = 0) \<and>
   (interventions ''humidity_control'' = None \<longrightarrow>
      calculate_humidity_control_savings self interventions = 0) \<and>
   (interventions ''vfd'' = None \<longrightarrow> calculate_vfd_savings self interventions = 0) \<and>
   (interventions ''led_conversion'' = None \<longrightarrow>
      calculate_led_conversion_savings self interventions = 0) \<and>
   (interventions ''window_upgrades'' = None \<longrightarrow>
      calculate_window_upgrade_savings self interventions = 0)"
  by (simp add: calculate_savings_cases savings_defs)

theorem empty_selection_saves_nothing_witness:
  "total_area (config mfa_tool) \<noteq> 0 \<and> total_site_energy (config mfa_tool) \<noteq> 0 \<and>
   0 \<le> total_hvac mfa_tool \<and>
   (\<exists>r. calculate_savings mfa_tool Map.empty = Inr r \<and> Total_Savings r = 0 \<and>
        New_Energy_Use r = 176424575) \<and>
   [''vfd'' \<mapsto> [''old'' \<mapsto> (80::real)]] ''hvac_rightsizing'' = None \<and>
   calculate_hvac_rightsizing_savings mfa_tool [''vfd'' \<mapsto> [''old'' \<mapsto> 80]] = 0"
  using empty_selection_saves_nothing [of mfa_tool "[''vfd'' \<mapsto> [''old'' \<mapsto> 80]]"]
  by (simp add: mfa_tool_def tool_defs BuildingConfig_default_def Let_def)

text \<open>
  Claim C5 as stated, for every engine, fails where the total baseline HVAC energy is
  negative: the cap \<open>min 0 (0.95 \<times> total_hvac)\<close> is then negative. With the default
  configuration changed to \<^verbatim>\<open>total_site_energy = -1000\<close> the engine is built, the
  total savings of the empty selection are \<open>-395.675\<close> and the new energy use is
  \<open>-604.325\<close>.
\<close>

theorem empty_selection_negative_energy:
  "\<not> isl (init (BuildingConfig_default\<lparr>total_site_energy := - 1000\<rparr>) InterventionConfig_default) \<and>
   map_sum id Total_Savings
     (calculate_savings
        (projr (init (BuildingConfig_default\<lparr>total_site_energy := - 1000\<rparr>)
                  InterventionConfig_default))
        Map.empty) = Inr (- (15827 / 40)) \<and>
   map_sum id New_Energy_Use
     (calculate_savings
        (projr (init (BuildingConfig_default\<lparr>total_site_energy := - 1000\<rparr>)
                  InterventionConfig_default))
        Map.empty) = Inr (- 1000 + 15827 / 40)"
  by (simp add: calculate_savings_cases savings_defs tool_defs BuildingConfig_default_def Let_def)


section \<open>Simple payback\<close>

text \<open>
  A selection that asks for less LED lighting than is already installed costs money and
  saves nothing.
\<close>

lemma below_existing_led_financials:
  "estimate_costs_and_payback mfa_tool
     [''led_conversion'' \<mapsto> [''old'' \<mapsto> 50, ''new'' \<mapsto> 50]]
     (projr (calculate_savings mfa_tool
        [''led_conversion'' \<mapsto> [''old'' \<mapsto> 50, ''new'' \<mapsto> 50]])) CostFactors_default =
   Inr \<lparr> Annual_Cost_Savings = 0,
         Electricity_Savings = 0,
         Natural_Gas_Savings = 0,
         Implementation_Cost_Estimate = 1236368,
         Simple_Payback = PosInf,
         CO2_Reduction = 0,
         Electricity_CO2_Reduction = 0,
         Natural_Gas_CO2_Reduction = 0 \<rparr>"
  by (simp add: estimate_costs_and_payback_def simple_payback_total implementation_costs_def
      elec_gas_split_def calculate_savings_cases individual_savings_def savings_defs
      mfa_tool_def tool_defs BuildingConfig_default_def
      InterventionConfig_default_def CostFactors_default_def Let_def)

text \<open>
  Claim C7, as amended: the payback expression of \<^verbatim>\<open>estimate_costs_and_payback\<close> never
  raises, whatever the cost and the savings: it is the cost divided by the savings when
  the savings are positive and positive infinity when they are zero or negative. For
  every engine, selection and savings report, and for every cost factors whose
  \<^verbatim>\<open>kbtu_to_kwh\<close> and \<^verbatim>\<open>kbtu_to_therm\<close> are not zero, the function returns a report
  whose annual cost savings are the accumulated electricity and gas energies converted
  and priced, whose implementation cost is the sum over the selected measures, and
  whose simple payback is that cost divided by those savings when they are positive and
  positive infinity when they are zero or negative.
\<close>

theorem payback_from_cost_and_savings:
  "simple_payback total_cost annual_cost_savings =
     Inr (if annual_cost_savings > 0 then Finite (total_cost / annual_cost_savings) else PosInf) \<and>
   (kbtu_to_kwh cost_factors \<noteq> 0 \<and> kbtu_to_therm cost_factors \<noteq> 0 \<longrightarrow>
     (\<exists>f. estimate_costs_and_payback self interventions savings_results cost_factors = Inr f \<and>
        Annual_Cost_Savings f =
          fst (split_by_source (Individual_Savings savings_results) (0, 0)) /
            kbtu_to_kwh cost_factors * elec_rate cost_factors +
          snd (split_by_source (Individual_Savings savings_results) (0, 0)) /
            kbtu_to_therm cost_factors * gas_rate cost_factors \<and>
        Implementation_Cost_Estimate f =
          add_implementation_costs self interventions implementation_costs 0 \<and>
        (0 < Annual_Cost_Savings f \<longrightarrow>
           Simple_Payback f = Finite (Implementation_Cost_Estimate f / Annual_Cost_Savings f)) \<and>
        (Annual_Cost_Savings f \<le> 0 \<longrightarrow> Simple_Payback f = PosInf)))"
  by (auto simp add: simple_payback_total estimate_costs_and_payback_def py_div_def Let_def
      split: prod.splits)

theorem payback_from_cost_and_savings_witness:
  "kbtu_to_kwh CostFactors_default \<noteq> 0 \<and> kbtu_to_therm CostFactors_default \<noteq> 0 \<and>
   (\<exists>f. estimate_costs_and_payback mfa_tool default_interventions
          (projr (calculate_savings mfa_tool default_interventions)) CostFactors_default = Inr f \<and>
        0 < Annual_Cost_Savings f \<and>
        Simple_Payback f = Finite (2928671511029312000 / 457927300181085981)) \<and>
   (\<exists>f. estimate_costs_and_payback mfa_tool
          [''led_conversion'' \<mapsto> [''old'' \<mapsto> 50, ''new'' \<mapsto> 50]]
          (projr (calculate_savings mfa_tool
             [''led_conversion'' \<mapsto> [''old'' \<mapsto> 50, ''new'' \<mapsto> 50]])) CostFactors_default = Inr f \<and>
        Annual_Cost_Savings f = 0 \<and>
        Implementation_Cost_Estimate f = 1236368 \<and>
        Simple_Payback f = PosInf)"
proof -
  have h: "kbtu_to_kwh CostFactors_default \<noteq> 0 \<and> kbtu_to_therm CostFactors_default \<noteq> 0"
    by (simp add: CostFactors_default_def)
  show ?thesis
    using h
      payback_from_cost_and_savings [of 0 0 CostFactors_default mfa_tool default_interventions
        "projr (calculate_savings mfa_tool default_interventions)"]
      payback_from_cost_and_savings [of 0 0 CostFactors_default mfa_tool
        "[''led_conversion'' \<mapsto> [''old'' \<mapsto> 50, ''new'' \<mapsto> 50]]"
        "projr (calculate_savings mfa_tool
           [''led_conversion'' \<mapsto> [''old'' \<mapsto> 50, ''new'' \<mapsto> 50]])"]
    by (simp add: default_financials below_existing_led_financials)
qed

text \<open>
  Claim C7 as stated, for every cost factors, fails where a unit conversion factor is
  zero: the conversions divide by \<^verbatim>\<open>kbtu_to_kwh\<close> and \<^verbatim>\<open>kbtu_to_therm\<close> before the
  payback is reached, and only the payback quotient is guarded. On the default engine,
  with savings of zero, the function raises \<^verbatim>\<open>ZeroDivisionError\<close> instead of returning
  an infinite payback.
\<close>

theorem zero_conversion_factor_raises:
  "estimate_costs_and_payback mfa_tool
     [''led_conversion'' \<mapsto> [''old'' \<mapsto> 50, ''new'' \<mapsto> 50]]
     (projr (calculate_savings mfa_tool
        [''led_conversion'' \<mapsto> [''old'' \<mapsto> 50, ''new'' \<mapsto> 50]]))
     (CostFactors_default\<lparr>kbtu_to_kwh := 0\<rparr>) = Inl ZeroDivisionError \<and>
   estimate_costs_and_payback mfa_tool Map.empty
     (projr (calculate_savings mfa_tool Map.empty))
     (CostFactors_default\<lparr>kbtu_to_therm := 0\<rparr>) = Inl ZeroDivisionError"
  by (simp add: estimate_costs_and_payback_def py_div_def CostFactors_default_def
      split: prod.splits)


section \<open>Energy allocation by effective area\<close>

text \<open>
  Claim C8: for every \<^verbatim>\<open>BuildingConfig\<close> whose total effective area is positive, the
  engine is built and shares the exhibition energy
  (\<open>total_site_energy \<times> exhibition_percent\<close>) between the zones in the ratio of their
  effective areas: the old zone counts with its area, the new zone with its area times
  \<^verbatim>\<open>new_building_efficiency_factor\<close>.
\<close>

theorem energy_allocation_by_effective_area:
  assumes "0 < total_area cfg * exhibition_percent cfg * old_building_percent cfg +
               total_area cfg * exhibition_percent cfg * new_building_percent cfg *
                 new_building_efficiency_factor cfg"
  shows "\<exists>self. init cfg icfg = Inr self \<and>
           old_building_area self =
             total_area cfg * exhibition_percent cfg * old_building_percent cfg \<and>
           new_building_area self =
             total_area cfg * exhibition_percent cfg * new_building_percent cfg \<and>
           exhibition_energy self = total_site_energy cfg * exhibition_percent cfg \<and>
           old_building_energy self =
             exhibition_energy self * old_building_area self /
               (old_building_area self +
                new_building_area self * new_building_efficiency_factor cfg) \<and>
           new_building_energy self =
             exhibition_energy self *
               (new_building_area self * new_building_efficiency_factor cfg) /
               (old_building_area self +
                new_building_area self * new_building_efficiency_factor cfg)"
  using assms by (simp add: tool_defs Let_def)

theorem energy_allocation_by_effective_area_witness:
  "0 < total_area BuildingConfig_default * exhibition_percent BuildingConfig_default *
         old_building_percent BuildingConfig_default +
       total_area BuildingConfig_default * exhibition_percent BuildingConfig_default *
         new_building_percent BuildingConfig_default *
         new_building_efficiency_factor BuildingConfig_default \<and>
   (\<exists>self. init BuildingConfig_default InterventionConfig_default = Inr self \<and>
      old_building_energy self = 67429472565 / 967 \<and>
      new_building_energy self = 64663135229 / 3868)"
proof -
  let ?c = BuildingConfig_default
  have h: "0 < total_area ?c * exhibition_percent ?c * old_building_percent ?c +
               total_area ?c * exhibition_percent ?c * new_building_percent ?c *
                 new_building_efficiency_factor ?c"
    by (simp add: BuildingConfig_default_def)
  from energy_allocation_by_effective_area [OF h, of InterventionConfig_default]
  obtain self where built: "init ?c InterventionConfig_default = Inr self"
    and oa: "old_building_area self =
               total_area ?c * exhibition_percent ?c * old_building_percent ?c"
    and na: "new_building_area self =
               total_area ?c * exhibition_percent ?c * new_building_percent ?c"
    and ee: "exhibition_energy self = total_site_energy ?c * exhibition_percent ?c"
    and oe: "old_building_energy self =
               exhibition_energy self * old_building_area self /
                 (old_building_area self +
                  new_building_area self * new_building_efficiency_factor ?c)"
    and ne: "new_building_energy self =
               exhibition_energy self *
                 (new_building_area self * new_building_efficiency_factor ?c) /
                 (old_building_area self +
                  new_building_area self * new_building_efficiency_factor ?c)"
    by blast
  have "old_building_energy self = 67429472565 / 967"
    unfolding oe ee oa na by (simp add: BuildingConfig_default_def)
  moreover have "new_building_energy self = 64663135229 / 3868"
    unfolding ne ee oa na by (simp add: BuildingConfig_default_def)
  ultimately show ?thesis using h built by blast
qed


section \<open>Monotonicity of the percent savings\<close>

subsection \<open>Reading a selection\<close>

lemma dict_get_upd_mono:
  "dict_get d z 0 \<le> a' \<Longrightarrow> dict_get d k (0::real) \<le> dict_get (d(z \<mapsto> a')) k 0"
  by (simp add: dict_get_def)

lemma dict_get_missing:
  "d z = None \<Longrightarrow> dict_get (d(z \<mapsto> 0)) k (0::real) = dict_get d k 0"
  by (simp add: dict_get_def)

lemma hvac_rightsizing_Some:
  "iv ''hvac_rightsizing'' = Some d \<Longrightarrow>
   calculate_hvac_rightsizing_savings self iv =
     old_building_hvac self * hvac_rightsizing_factor (interventions_config self) *
       (dict_get d ''old'' 0 / 100) +
     new_building_hvac self * hvac_rightsizing_factor (interventions_config self) *
       (dict_get d ''new'' 0 / 100)"
  by (simp add: calculate_hvac_rightsizing_savings_def Let_def)

lemma humidity_control_Some:
  "iv ''humidity_control'' = Some d \<Longrightarrow>
   calculate_humidity_control_savings self iv =
     old_building_hvac self * humidity_control_factor (interventions_config self) *
       (dict_get d ''old'' 0 / 100) +
     new_building_hvac self * humidity_control_factor (interventions_config self) *
       (dict_get d ''new'' 0 / 100)"
  by (simp add: calculate_humidity_control_savings_def Let_def)

lemma vfd_Some:
  "iv ''vfd'' = Some d \<Longrightarrow>
   calculate_vfd_savings self iv =
     old_building_fan self * vfd_factor (interventions_config self) *
       (dict_get d ''old'' 0 / 100) +
     new_building_fan self * vfd_factor (interventions_config self) *
       (dict_get d ''new'' 0 / 100)"
  by (simp add: calculate_vfd_savings_def Let_def)

lemma led_conversion_Some:
  "iv ''led_conversion'' = Some d \<Longrightarrow>
   calculate_led_conversion_savings self iv =
     old_building_lighting self * led_conversion_factor (interventions_config self) *
       max 0 (dict_get d ''old'' 0 / 100 - current_led_percentage (config self)) +
     new_building_lighting self * led_conversion_factor (interventions_config self) *
       max 0 (dict_get d ''new'' 0 / 100 - current_led_percentage (config self))"
  by (simp add: calculate_led_conversion_savings_def Let_def)

lemma window_upgrade_Some:
  "iv ''window_upgrades'' = Some d \<Longrightarrow>
   calculate_window_upgrade_savings self iv =
     old_building_hvac self * window_upgrade_factor (interventions_config self) *
       (dict_get d ''old'' 0 / 100) +
     new_building_hvac self * window_upgrade_factor (interventions_config self) *
       (dict_get d ''new'' 0 / 100)"
  by (simp add: calculate_window_upgrade_savings_def Let_def)

text \<open>Changing the entry of one measure leaves the savings of the other measures alone.\<close>

lemma savings_other_measure:
  "m \<noteq> ''hvac_rightsizing'' \<Longrightarrow>
     calculate_hvac_rightsizing_savings self (iv(m \<mapsto> d)) =
     calculate_hvac_rightsizing_savings self iv"
  "m \<noteq> ''humidity_control'' \<Longrightarrow>
     calculate_humidity_control_savings self (iv(m \<mapsto> d)) =
     calculate_humidity_control_savings self iv"
  "m \<noteq> ''vfd'' \<Longrightarrow> calculate_vfd_savings self (iv(m \<mapsto> d)) = calculate_vfd_savings self iv"
  "m \<noteq> ''led_conversion'' \<Longrightarrow>
     calculate_led_conversion_savings self (iv(m \<mapsto> d)) =
     calculate_led_conversion_savings self iv"
  "m \<noteq> ''window_upgrades'' \<Longrightarrow>
     calculate_window_upgrade_savings self (iv(m \<mapsto> d)) =
     calculate_window_upgrade_savings self iv"
  by (simp_all add: savings_defs)

subsection \<open>Monotonicity of the per-measure savings\<close>

lemma two_zone_mono:
  fixes t1 t2 f x1 x2 y1 y2 :: real
  assumes "0 \<le> t1" "0 \<le> t2" "0 \<le> f" "x1 \<le> y1" "x2 \<le> y2"
  shows "t1 * f * (x1 / 100) + t2 * f * (x2 / 100) \<le> t1 * f * (y1 / 100) + t2 * f * (y2 / 100)"
  using assms by (intro add_mono mult_left_mono divide_right_mono mult_nonneg_nonneg) simp_all

lemma two_zone_clamped_mono:
  fixes t1 t2 f x1 x2 y1 y2 c :: real
  assumes "0 \<le> t1" "0 \<le> t2" "0 \<le> f" "x1 \<le> y1" "x2 \<le> y2"
  shows "t1 * f * max 0 (x1 / 100 - c) + t2 * f * max 0 (x2 / 100 - c)
           \<le> t1 * f * max 0 (y1 / 100 - c) + t2 * f * max 0 (y2 / 100 - c)"
proof -
  have "max 0 (x1 / 100 - c) \<le> max 0 (y1 / 100 - c)"
    and "max 0 (x2 / 100 - c) \<le> max 0 (y2 / 100 - c)"
    using assms(4,5) by (simp_all add: max_def)
  then show ?thesis
    using assms(1-3) by (intro add_mono mult_left_mono mult_nonneg_nonneg) simp_all
qed

lemma hvac_rightsizing_mono:
  assumes "iv m = Some d" "dict_get d z 0 \<le> a'"
    and "0 \<le> old_building_hvac self" "0 \<le> new_building_hvac self"
    and "0 \<le> hvac_rightsizing_factor (interventions_config self)"
  shows "calculate_hvac_rightsizing_savings self iv
           \<le> calculate_hvac_rightsizing_savings self (iv(m \<mapsto> d(z \<mapsto> a')))"
proof (cases "m = ''hvac_rightsizing''")
  case True
  with assms(1) have "iv ''hvac_rightsizing'' = Some d"
    and "(iv(m \<mapsto> d(z \<mapsto> a'))) ''hvac_rightsizing'' = Some (d(z \<mapsto> a'))" by simp_all
  then show ?thesis
    using assms(2-) by (simp only: hvac_rightsizing_Some) (intro two_zone_mono dict_get_upd_mono)
next
  case False
  then show ?thesis by (simp add: savings_other_measure)
qed

lemma humidity_control_mono:
  assumes "iv m = Some d" "dict_get d z 0 \<le> a'"
    and "0 \<le> old_building_hvac self" "0 \<le> new_building_hvac self"
    and "0 \<le> humidity_control_factor (interventions_config self)"
  shows "calculate_humidity_control_savings self iv
           \<le> calculate_humidity_control_savings self (iv(m \<mapsto> d(z \<mapsto> a')))"
proof (cases "m = ''humidity_control''")
  case True
  with assms(1) have "iv ''humidity_control'' = Some d"
    and "(iv(m \<mapsto> d(z \<mapsto> a'))) ''humidity_control'' = Some (d(z \<mapsto> a'))" by simp_all
  then show ?thesis
    using assms(2-) by (simp only: humidity_control_Some) (intro two_zone_mono dict_get_upd_mono)
next
  case False
  then show ?thesis by (simp add: savings_other_measure)
qed

lemma vfd_mono:
  assumes "iv m = Some d" "dict_get d z 0 \<le> a'"
    and "0 \<le> old_building_fan self" "0 \<le> new_building_fan self"
    and "0 \<le> vfd_factor (interventions_config self)"
  shows "calculate_vfd_savings self iv \<le> calculate_vfd_savings self (iv(m \<mapsto> d(z \<mapsto> a')))"
proof (cases "m = ''vfd''")
  case True
  with assms(1) have "iv ''vfd'' = Some d"
    and "(iv(m \<mapsto> d(z \<mapsto> a'))) ''vfd'' = Some (d(z \<mapsto> a'))" by simp_all
  then show ?thesis
    using assms(2-) by (simp only: vfd_Some) (intro two_zone_mono dict_get_upd_mono)
next
  case False
  then show ?thesis by (simp add: savings_other_measure)
qed

lemma led_conversion_mono:
  assumes "iv m = Some d" "dict_get d z 0 \<le> a'"
    and "0 \<le> old_building_lighting self" "0 \<le> new_building_lighting self"
    and "0 \<le> led_conversion_factor (interventions_config self)"
  shows "calculate_led_conversion_savings self iv
           \<le> calculate_led_conversion_savings self (iv(m \<mapsto> d(z \<mapsto> a')))"
proof (cases "m = ''led_conversion''")
  case True
  with assms(1) have "iv ''led_conversion'' = Some d"
    and "(iv(m \<mapsto> d(z \<mapsto> a'))) ''led_conversion'' = Some (d(z \<mapsto> a'))" by simp_all
  then show ?thesis
    using assms(2-)
    by (simp only: led_conversion_Some) (intro two_zone_clamped_mono dict_get_upd_mono)
next
  case False
  then show ?thesis by (simp add: savings_other_measure)
qed

lemma window_upgrade_mono:
  assumes "iv m = Some d" "dict_get d z 0 \<le> a'"
    and "0 \<le> old_building_hvac self" "0 \<le> new_building_hvac self"
    and "0 \<le> window_upgrade_factor (interventions_config self)"
  shows "calculate_window_upgrade_savings self iv
           \<le> calculate_window_upgrade_savings self (iv(m \<mapsto> d(z \<mapsto> a')))"
proof (cases "m = ''window_upgrades''")
  case True
  with assms(1) have "iv ''window_upgrades'' = Some d"
    and "(iv(m \<mapsto> d(z \<mapsto> a'))) ''window_upgrades'' = Some (d(z \<mapsto> a'))" by simp_all
  then show ?thesis
    using assms(2-) by (simp only: window_upgrade_Some) (intro two_zone_mono dict_get_upd_mono)
next
  case False
  then show ?thesis by (simp add: savings_other_measure)
qed

lemma init_Inr:
  assumes "init cfg icfg = Inr self"
  shows "config self = cfg" and "interventions_config self = icfg" and "total_area cfg \<noteq> 0"
  using assms by (auto simp add: tool_defs Let_def split: if_splits)

lemma mfa_tool_nonneg:
  "0 \<le> old_building_hvac mfa_tool" "0 \<le> new_building_hvac mfa_tool"
  "0 \<le> old_building_fan mfa_tool" "0 \<le> new_building_fan mfa_tool"
  "0 \<le> old_building_lighting mfa_tool" "0 \<le> new_building_lighting mfa_tool"
  by (simp_all add: mfa_tool_def tool_defs BuildingConfig_default_def Let_def)

text \<open>
  Claim C6: for every engine built from a configuration with positive
  \<^verbatim>\<open>total_site_energy\<close>, whose end-use energies targeted by the measures (HVAC, fan and
  lighting energy of both zones) and whose five effectiveness factors are not negative,
  raising the adoption percentage of one zone of one selected measure, all other
  percentages unchanged, does not lower the percent savings that
  \<^verbatim>\<open>calculate_savings\<close> returns. The adoption being raised is the one the code reads:
  the number stored under the zone, or \<open>0\<close> when the zone's sub-key is missing. The
  areas play no part in the savings, so their sign is not needed.
\<close>

theorem percent_savings_monotone:
  assumes built: "init cfg icfg = Inr self"
    and energy: "0 < total_site_energy cfg"
    and hvac: "0 \<le> old_building_hvac self" "0 \<le> new_building_hvac self"
    and fan: "0 \<le> old_building_fan self" "0 \<le> new_building_fan self"
    and lighting: "0 \<le> old_building_lighting self" "0 \<le> new_building_lighting self"
    and factors: "0 \<le> hvac_rightsizing_factor icfg" "0 \<le> humidity_control_factor icfg"
      "0 \<le> vfd_factor icfg" "0 \<le> led_conversion_factor icfg" "0 \<le> window_upgrade_factor icfg"
    and selected: "interventions m = Some d"
    and raised: "dict_get d z 0 \<le> a'"
  shows "\<exists>r r'. calculate_savings self interventions = Inr r \<and>
           calculate_savings self (interventions(m \<mapsto> d(z \<mapsto> a'))) = Inr r' \<and>
           Percent_Savings r \<le> Percent_Savings r'"
proof -
  let ?iv' = "interventions(m \<mapsto> d(z \<mapsto> a'))"
  note cfg = init_Inr [OF built]
  have f: "0 \<le> hvac_rightsizing_factor (interventions_config self)"
    "0 \<le> humidity_control_factor (interventions_config self)"
    "0 \<le> vfd_factor (interventions_config self)"
    "0 \<le> led_conversion_factor (interventions_config self)"
    "0 \<le> window_upgrade_factor (interventions_config self)"
    using factors by (simp_all add: cfg)
  have "calculate_hvac_rightsizing_savings self interventions +
        calculate_humidity_control_savings self interventions +
        calculate_vfd_savings self interventions +
        calculate_window_upgrade_savings self interventions
        \<le> calculate_hvac_rightsizing_savings self ?iv' +
          calculate_humidity_control_savings self ?iv' +
          calculate_vfd_savings self ?iv' +
          calculate_window_upgrade_savings self ?iv'"
    by (intro add_mono hvac_rightsizing_mono humidity_control_mono vfd_mono window_upgrade_mono
        selected raised hvac fan f)
  then have capped:
    "min (calculate_hvac_rightsizing_savings self interventions +
          calculate_humidity_control_savings self interventions +
          calculate_vfd_savings self interventions +
          calculate_window_upgrade_savings self interventions) (95 / 100 * total_hvac self)
     \<le> min (calculate_hvac_rightsizing_savings self ?iv' +
            calculate_humidity_control_savings self ?iv' +
            calculate_vfd_savings self ?iv' +
            calculate_window_upgrade_savings self ?iv') (95 / 100 * total_hvac self)"
    by (rule min.mono) simp
  have led: "calculate_led_conversion_savings self interventions
               \<le> calculate_led_conversion_savings self ?iv'"
    by (intro led_conversion_mono selected raised lighting f)
  have nz: "total_area (config self) \<noteq> 0" "total_site_energy (config self) \<noteq> 0"
    and pos: "0 < total_site_energy (config self)"
    using cfg energy by simp_all
  from add_mono [OF capped led] pos show ?thesis
    by (simp add: calculate_savings_cases nz divide_right_mono mult_right_mono)
qed

theorem percent_savings_monotone_witness:
  "init BuildingConfig_default InterventionConfig_default = Inr mfa_tool \<and>
   0 < total_site_energy BuildingConfig_default \<and>
   0 \<le> old_building_hvac mfa_tool \<and> 0 \<le> new_building_hvac mfa_tool \<and>
   0 \<le> old_building_fan mfa_tool \<and> 0 \<le> new_building_fan mfa_tool \<and>
   0 \<le> old_building_lighting mfa_tool \<and> 0 \<le> new_building_lighting mfa_tool \<and>
   0 \<le> hvac_rightsizing_factor InterventionConfig_default \<and>
   0 \<le> humidity_control_factor InterventionConfig_default \<and>
   0 \<le> vfd_factor InterventionConfig_default \<and>
   0 \<le> led_conversion_factor InterventionConfig_default \<and>
   0 \<le> window_upgrade_factor InterventionConfig_default \<and>
   default_interventions ''vfd'' = Some [''old'' \<mapsto> 80, ''new'' \<mapsto> 40] \<and>
   dict_get [''old'' \<mapsto> 80, ''new'' \<mapsto> (40::real)] ''old'' 0 \<le> 100 \<and>
   (\<exists>r r'. calculate_savings mfa_tool default_interventions = Inr r \<and>
      calculate_savings mfa_tool
        (default_interventions(''vfd'' \<mapsto> [''old'' \<mapsto> 80, ''new'' \<mapsto> 40](''old'' \<mapsto> 100))) = Inr r' \<and>
      Percent_Savings r \<le> Percent_Savings r')"
proof -
  have e: "0 < total_site_energy BuildingConfig_default"
    by (simp add: BuildingConfig_default_def)
  have f: "0 \<le> hvac_rightsizing_factor InterventionConfig_default"
    "0 \<le> humidity_control_factor InterventionConfig_default"
    "0 \<le> vfd_factor InterventionConfig_default"
    "0 \<le> led_conversion_factor InterventionConfig_default"
    "0 \<le> window_upgrade_factor InterventionConfig_default"
    by (simp_all add: InterventionConfig_default_def)
  have s: "default_interventions ''vfd'' = Some [''old'' \<mapsto> 80, ''new'' \<mapsto> 40]"
    by (simp add: default_interventions_def)
  have a: "dict_get [''old'' \<mapsto> 80, ''new'' \<mapsto> (40::real)] ''old'' 0 \<le> 100"
    by (simp add: dict_get_def)
  note w = percent_savings_monotone
    [where interventions = default_interventions and m = "''vfd''"
       and d = "[''old'' \<mapsto> 80, ''new'' \<mapsto> 40]" and z = "''old''" and a' = 100,
     OF init_default e mfa_tool_nonneg f s a]
  show ?thesis
    using init_default e mfa_tool_nonneg f s a w by blast
qed


section \<open>Financial figures and the cap\<close>

lemma split_individual:
  "split_by_source (individual_savings self iv) (0, 0) =
     (40 / 100 * calculate_hvac_rightsizing_savings self iv +
      30 / 100 * calculate_humidity_control_savings self iv +
      calculate_vfd_savings self iv +
      calculate_led_conversion_savings self iv +
      25 / 100 * calculate_window_upgrade_savings self iv,
      60 / 100 * calculate_hvac_rightsizing_savings self iv +
      70 / 100 * calculate_humidity_control_savings self iv +
      75 / 100 * calculate_window_upgrade_savings self iv)"
  by (simp add: individual_savings_def elec_gas_split_def)

lemma calculate_savings_individual:
  "calculate_savings self iv = Inr r \<Longrightarrow> Individual_Savings r = individual_savings self iv"
  by (auto simp add: calculate_savings_cases split: if_splits)

lemma capped_savings:
  "calculate_savings capped_tool [''hvac_rightsizing'' \<mapsto> [''old'' \<mapsto> 100, ''new'' \<mapsto> 100]] =
   Inr \<lparr> Individual_Savings =
           [(''hvac_rightsizing'', 5878466839 / 80), (''humidity_control'', 0), (''vfd'', 0),
            (''led_conversion'', 0), (''window_upgrades'', 0)],
         Total_Savings = 111690869941 / 1600,
         New_Energy_Use = 170588450059 / 1600,
         New_EUI = 170588450059 / 1009280000,
         Percent_Savings = 15827 / 400,
         Baseline_EUI = 2797 / 10 \<rparr>"
  by (simp add: calculate_savings_cases individual_savings_def savings_defs capped_tool_def
      tool_defs BuildingConfig_default_def InterventionConfig_default_def Let_def)

text \<open>
  Claim C9: when \<^verbatim>\<open>estimate_costs_and_payback\<close> is given the report of
  \<^verbatim>\<open>calculate_savings\<close>, the electricity and gas energy it accumulates add up to the
  plain sum of the five individual savings, because every row of the split table sums
  to \<open>1\<close>. The individual savings are not capped, and the report's capped total (with
  the three figures derived from it) is never read: replacing them leaves the financial
  report unchanged, and the dollar savings and the CO2 reduction are those of the
  accumulated, uncapped energies.
\<close>

theorem financials_use_uncapped_savings:
  assumes "calculate_savings self interventions = Inr savings_results"
  shows "fst (split_by_source (Individual_Savings savings_results) (0, 0)) +
         snd (split_by_source (Individual_Savings savings_results) (0, 0)) =
           calculate_hvac_rightsizing_savings self interventions +
           calculate_humidity_control_savings self interventions +
           calculate_vfd_savings self interventions +
           calculate_led_conversion_savings self interventions +
           calculate_window_upgrade_savings self interventions \<and>
         estimate_costs_and_payback self interventions
             (savings_results\<lparr>Total_Savings := t, New_Energy_Use := n, New_EUI := u,
                Percent_Savings := p\<rparr>) cost_factors =
           estimate_costs_and_payback self interventions savings_results cost_factors \<and>
         (kbtu_to_kwh cost_factors \<noteq> 0 \<and> kbtu_to_therm cost_factors \<noteq> 0 \<longrightarrow>
            (\<exists>f. estimate_costs_and_payback self interventions savings_results cost_factors = Inr f \<and>
               Annual_Cost_Savings f =
                 fst (split_by_source (Individual_Savings savings_results) (0, 0)) /
                   kbtu_to_kwh cost_factors * elec_rate cost_factors +
                 snd (split_by_source (Individual_Savings savings_results) (0, 0)) /
                   kbtu_to_therm cost_factors * gas_rate cost_factors \<and>
               CO2_Reduction f =
                 fst (split_by_source (Individual_Savings savings_results) (0, 0)) /
                   kbtu_to_kwh cost_factors * co2_factor_elec cost_factors +
                 snd (split_by_source (Individual_Savings savings_results) (0, 0)) /
                   kbtu_to_therm cost_factors * co2_factor_gas cost_factors))"
proof -
  have ind: "Individual_Savings savings_results = individual_savings self interventions"
    using assms by (rule calculate_savings_individual)
  have total: "fst (split_by_source (Individual_Savings savings_results) (0, 0)) +
         snd (split_by_source (Individual_Savings savings_results) (0, 0)) =
           calculate_hvac_rightsizing_savings self interventions +
           calculate_humidity_control_savings self interventions +
           calculate_vfd_savings self interventions +
           calculate_led_conversion_savings self interventions +
           calculate_window_upgrade_savings self interventions"
    by (simp add: ind split_individual)
  have same: "estimate_costs_and_payback self interventions
             (savings_results\<lparr>Total_Savings := t, New_Energy_Use := n, New_EUI := u,
                Percent_Savings := p\<rparr>) cost_factors =
           estimate_costs_and_payback self interventions savings_results cost_factors"
    by (simp add: estimate_costs_and_payback_def)
  have fin: "kbtu_to_kwh cost_factors \<noteq> 0 \<and> kbtu_to_therm cost_factors \<noteq> 0 \<longrightarrow>
            (\<exists>f. estimate_costs_and_payback self interventions savings_results cost_factors = Inr f \<and>
               Annual_Cost_Savings f =
                 fst (split_by_source (Individual_Savings savings_results) (0, 0)) /
                   kbtu_to_kwh cost_factors * elec_rate cost_factors +
                 snd (split_by_source (Individual_Savings savings_results) (0, 0)) /
                   kbtu_to_therm cost_factors * gas_rate cost_factors \<and>
               CO2_Reduction f =
                 fst (split_by_source (Individual_Savings savings_results) (0, 0)) /
                   kbtu_to_kwh cost_factors * co2_factor_elec cost_factors +
                 snd (split_by_source (Individual_Savings savings_results) (0, 0)) /
                   kbtu_to_therm cost_factors * co2_factor_gas cost_factors)"
    by (simp add: estimate_costs_and_payback_def simple_payback_total py_div_def Let_def
        split: prod.splits)
  from total same fin show ?thesis by blast
qed

theorem financials_use_uncapped_savings_witness:
  "calculate_savings capped_tool
       [''hvac_rightsizing'' \<mapsto> [''old'' \<mapsto> 100, ''new'' \<mapsto> 100]] =
     Inr (projr (calculate_savings capped_tool
       [''hvac_rightsizing'' \<mapsto> [''old'' \<mapsto> 100, ''new'' \<mapsto> 100]])) \<and>
   Total_Savings (projr (calculate_savings capped_tool
       [''hvac_rightsizing'' \<mapsto> [''old'' \<mapsto> 100, ''new'' \<mapsto> 100]])) = 111690869941 / 1600 \<and>
   fst (split_by_source (Individual_Savings (projr (calculate_savings capped_tool
       [''hvac_rightsizing'' \<mapsto> [''old'' \<mapsto> 100, ''new'' \<mapsto> 100]]))) (0, 0)) +
   snd (split_by_source (Individual_Savings (projr (calculate_savings capped_tool
       [''hvac_rightsizing'' \<mapsto> [''old'' \<mapsto> 100, ''new'' \<mapsto> 100]]))) (0, 0)) =
     5878466839 / 80 \<and>
   calculate_hvac_rightsizing_savings capped_tool
       [''hvac_rightsizing'' \<mapsto> [''old'' \<mapsto> 100, ''new'' \<mapsto> 100]] = 5878466839 / 80"
proof -
  let ?S = "[''hvac_rightsizing'' \<mapsto> [''old'' \<mapsto> 100, ''new'' \<mapsto> (100::real)]]"
  let ?R = "projr (calculate_savings capped_tool ?S)"
  have built: "calculate_savings capped_tool ?S = Inr ?R"
    by (simp add: capped_savings)
  have total: "Total_Savings ?R = 111690869941 / 1600"
    by (simp add: capped_savings)
  have each: "calculate_hvac_rightsizing_savings capped_tool ?S = 5878466839 / 80"
    "calculate_humidity_control_savings capped_tool ?S = 0"
    "calculate_vfd_savings capped_tool ?S = 0"
    "calculate_led_conversion_savings capped_tool ?S = 0"
    "calculate_window_upgrade_savings capped_tool ?S = 0"
    by (simp_all add: savings_defs capped_tool_def tool_defs BuildingConfig_default_def
        InterventionConfig_default_def Let_def)
  from financials_use_uncapped_savings
    [where self = capped_tool and interventions = ?S and savings_results = ?R
       and cost_factors = CostFactors_default and t = 0 and n = 0 and u = 0 and p = 0,
     OF built]
  have "fst (split_by_source (Individual_Savings ?R) (0, 0)) +
        snd (split_by_source (Individual_Savings ?R) (0, 0)) =
          calculate_hvac_rightsizing_savings capped_tool ?S +
          calculate_humidity_control_savings capped_tool ?S +
          calculate_vfd_savings capped_tool ?S +
          calculate_led_conversion_savings capped_tool ?S +
          calculate_window_upgrade_savings capped_tool ?S"
    by (rule conjunct1)
  then have uncapped: "fst (split_by_source (Individual_Savings ?R) (0, 0)) +
        snd (split_by_source (Individual_Savings ?R) (0, 0)) = 5878466839 / 80"
    by (simp only: each add_0_right)
  from built total uncapped each(1) show ?thesis by blast
qed


section \<open>Missing zone sub-keys\<close>

lemma missing_zone_savings:
  assumes "iv m = Some d" and "d z = None"
  shows "calculate_hvac_rightsizing_savings self (iv(m \<mapsto> d(z \<mapsto> 0))) =
           calculate_hvac_rightsizing_savings self iv"
    and "calculate_humidity_control_savings self (iv(m \<mapsto> d(z \<mapsto> 0))) =
           calculate_humidity_control_savings self iv"
    and "calculate_vfd_savings self (iv(m \<mapsto> d(z \<mapsto> 0))) = calculate_vfd_savings self iv"
    and "calculate_led_conversion_savings self (iv(m \<mapsto> d(z \<mapsto> 0))) =
           calculate_led_conversion_savings self iv"
    and "calculate_window_upgrade_savings self (iv(m \<mapsto> d(z \<mapsto> 0))) =
           calculate_window_upgrade_savings self iv"
  using assms by (auto simp add: savings_defs)

lemma add_costs_missing_zone:
  assumes "iv m = Some d" and "d z = None"
  shows "add_implementation_costs self (iv(m \<mapsto> d(z \<mapsto> 0))) tbl acc =
         add_implementation_costs self iv tbl acc"
  using assms
  by (induction tbl arbitrary: acc) (auto simp add: dict_get_def Let_def split: option.splits)

lemma add_costs_sum:
  "add_implementation_costs self iv tbl acc =
     acc + sum_list (map (\<lambda>(key, details).
       case iv key of
         None \<Rightarrow> 0
       | Some d \<Rightarrow> old_building_area self * cost_old details * (dict_get d ''old'' 0 / 100) +
                   new_building_area self * cost_new details * (dict_get d ''new'' 0 / 100)) tbl)"
  by (induction tbl arbitrary: acc) (auto simp add: Let_def split: option.splits)

lemma sum_costs_remove:
  assumes "iv m = Some d" and "distinct (map fst tbl)"
  shows "sum_list (map (\<lambda>(key, details).
           case iv key of
             None \<Rightarrow> 0
           | Some d \<Rightarrow> old_building_area self * cost_old details * (dict_get d ''old'' 0 / 100) +
                       new_building_area self * cost_new details * (dict_get d ''new'' 0 / 100)) tbl) =
         sum_list (map (\<lambda>(key, details).
           case (iv(m := None)) key of
             None \<Rightarrow> 0
           | Some d \<Rightarrow> old_building_area self * cost_old details * (dict_get d ''old'' 0 / 100) +
                       new_building_area self * cost_new details * (dict_get d ''new'' 0 / 100)) tbl) +
         (case map_of tbl m of
            None \<Rightarrow> 0
          | Some details \<Rightarrow>
              old_building_area self * cost_old details * (dict_get d ''old'' 0 / 100) +
              new_building_area self * cost_new details * (dict_get d ''new'' 0 / 100))"
  using assms
proof (induction tbl)
  case Nil
  then show ?case by simp
next
  case (Cons entry tbl)
  obtain key details where entry: "entry = (key, details)" by (cases entry)
  show ?case
  proof (cases "key = m")
    case True
    with Cons.prems entry have "map_of tbl m = None"
      by (simp add: map_of_eq_None_iff)
    with Cons True entry show ?thesis by simp
  next
    case False
    with Cons entry show ?thesis by simp
  qed
qed

lemma missing_zone_cost:
  assumes "iv m = Some d"
  shows "add_implementation_costs self iv implementation_costs 0 =
         add_implementation_costs self (iv(m := None)) implementation_costs 0 +
         (case map_of implementation_costs m of
            None \<Rightarrow> 0
          | Some details \<Rightarrow>
              old_building_area self * cost_old details * (dict_get d ''old'' 0 / 100) +
              new_building_area self * cost_new details * (dict_get d ''new'' 0 / 100))"
proof -
  have "distinct (map fst implementation_costs)"
    by (simp add: implementation_costs_def)
  from sum_costs_remove [where iv = iv and m = m and d = d and self = self, OF assms this]
  show ?thesis
    by (simp only: add_costs_sum add_0)
qed

lemma dict_get_None: "d z = None \<Longrightarrow> dict_get d z (0::real) = 0"
  by (simp add: dict_get_def)

lemma estimate_isl:
  "isl (estimate_costs_and_payback self iv sr cf) = (kbtu_to_kwh cf = 0 \<or> kbtu_to_therm cf = 0)"
  by (simp add: estimate_costs_and_payback_def simple_payback_total py_div_def Let_def
      split: prod.splits)

lemma calculate_savings_isl:
  "isl (calculate_savings self iv) =
     (total_area (config self) = 0 \<or> total_site_energy (config self) = 0)"
  by (simp add: calculate_savings_cases)

text \<open>
  Claim C10: when a measure is selected but the sub-key of one zone is missing,
  \<^verbatim>\<open>calculate_savings\<close> and \<^verbatim>\<open>estimate_costs_and_payback\<close> return what they return
  with that sub-key set to \<open>0\<close>; whether they raise depends on their divisors alone,
  never on the selection; and the zone adds nothing to the measure's savings or to the
  implementation cost, which are those of the other zone. For \<^verbatim>\<open>led_conversion\<close> an
  adoption of \<open>0\<close> is clamped to \<open>max 0 (- current_led_percentage)\<close>, which is \<open>0\<close> for
  the LED fractions a \<^verbatim>\<open>BuildingConfig\<close> is meant to hold (percentages in \<open>[0, 1]\<close>).
\<close>

theorem missing_zone_is_zero_adoption:
  assumes "interventions m = Some d" and "d z = None"
  shows "calculate_savings self (interventions(m \<mapsto> d(z \<mapsto> 0))) =
           calculate_savings self interventions \<and>
         estimate_costs_and_payback self (interventions(m \<mapsto> d(z \<mapsto> 0)))
             savings_results cost_factors =
           estimate_costs_and_payback self interventions savings_results cost_factors \<and>
         isl (calculate_savings self interventions) =
           (total_area (config self) = 0 \<or> total_site_energy (config self) = 0) \<and>
         isl (estimate_costs_and_payback self interventions savings_results cost_factors) =
           (kbtu_to_kwh cost_factors = 0 \<or> kbtu_to_therm cost_factors = 0) \<and>
         (z = ''old'' \<longrightarrow>
            (m = ''hvac_rightsizing'' \<longrightarrow>
               calculate_hvac_rightsizing_savings self interventions =
                 new_building_hvac self * hvac_rightsizing_factor (interventions_config self) *
                   (dict_get d ''new'' 0 / 100)) \<and>
            (m = ''humidity_control'' \<longrightarrow>
               calculate_humidity_control_savings self interventions =
                 new_building_hvac self * humidity_control_factor (interventions_config self) *
                   (dict_get d ''new'' 0 / 100)) \<and>
            (m = ''vfd'' \<longrightarrow>
               calculate_vfd_savings self interventions =
                 new_building_fan self * vfd_factor (interventions_config self) *
                   (dict_get d ''new'' 0 / 100)) \<and>
            (m = ''window_upgrades'' \<longrightarrow>
               calculate_window_upgrade_savings self interventions =
                 new_building_hvac self * window_upgrade_factor (interventions_config self) *
                   (dict_get d ''new'' 0 / 100)) \<and>
            (m = ''led_conversion'' \<and> 0 \<le> current_led_percentage (config self) \<longrightarrow>
               calculate_led_conversion_savings self interventions =
                 new_building_lighting self * led_conversion_factor (interventions_config self) *
                   max 0 (dict_get d ''new'' 0 / 100 - current_led_percentage (config self))) \<and>
            add_implementation_costs self interventions implementation_costs 0 =
              add_implementation_costs self (interventions(m := None)) implementation_costs 0 +
              (case map_of implementation_costs m of
                 None \<Rightarrow> 0
               | Some details \<Rightarrow>
                   new_building_area self * cost_new details * (dict_get d ''new'' 0 / 100))) \<and>
         (z = ''new'' \<longrightarrow>
            (m = ''hvac_rightsizing'' \<longrightarrow>
               calculate_hvac_rightsizing_savings self interventions =
                 old_building_hvac self * hvac_rightsizing_factor (interventions_config self) *
                   (dict_get d ''old'' 0 / 100)) \<and>
            (m = ''humidity_control'' \<longrightarrow>
               calculate_humidity_control_savings self interventions =
                 old_building_hvac self * humidity_control_factor (interventions_config self) *
                   (dict_get d ''old'' 0 / 100)) \<and>
            (m = ''vfd'' \<longrightarrow>
               calculate_vfd_savings self interventions =
                 old_building_fan self * vfd_factor (interventions_config self) *
                   (dict_get d ''old'' 0 / 100)) \<and>
            (m = ''window_upgrades'' \<longrightarrow>
               calculate_window_upgrade_savings self interventions =
                 old_building_hvac self * window_upgrade_factor (interventions_config self) *
                   (dict_get d ''old'' 0 / 100)) \<and>
            (m = ''led_conversion'' \<and> 0 \<le> current_led_percentage (config self) \<longrightarrow>
               calculate_led_conversion_savings self interventions =
                 old_building_lighting self * led_conversion_factor (interventions_config self) *
                   max 0 (dict_get d ''old'' 0 / 100 - current_led_percentage (config self))) \<and>
            add_implementation_costs self interventions implementation_costs 0 =
              add_implementation_costs self (interventions(m := None)) implementation_costs 0 +
              (case map_of implementation_costs m of
                 None \<Rightarrow> 0
               | Some details \<Rightarrow>
                   old_building_area self * cost_old details * (dict_get d ''old'' 0 / 100)))"
proof -
  note same = missing_zone_savings
    [where iv = interventions and m = m and d = d and z = z and self = self, OF assms]
  have savings: "calculate_savings self (interventions(m \<mapsto> d(z \<mapsto> 0))) =
      calculate_savings self interventions"
    by (simp add: calculate_savings_cases individual_savings_def same)
  have financials: "estimate_costs_and_payback self (interventions(m \<mapsto> d(z \<mapsto> 0)))
      savings_results cost_factors =
      estimate_costs_and_payback self interventions savings_results cost_factors"
    unfolding estimate_costs_and_payback_def
      add_costs_missing_zone [where iv = interventions and m = m and d = d and z = z, OF assms]
    by (rule refl)
  note cost = missing_zone_cost
    [where iv = interventions and m = m and d = d and self = self, OF assms(1)]
  have old: ?thesis if "z = ''old''"
  proof -
    from that assms(2) have zero: "dict_get d ''old'' 0 = 0" by (simp add: dict_get_None)
    have clamp: "max 0 (0 / 100 - c) = (0::real)" if "0 \<le> c" for c
      using that by simp
    show ?thesis
      using that assms(1) cost savings financials
      by (auto simp add: calculate_savings_isl estimate_isl
          hvac_rightsizing_Some humidity_control_Some vfd_Some window_upgrade_Some
          led_conversion_Some zero clamp split: option.splits)
  qed
  have new: ?thesis if "z = ''new''"
  proof -
    from that assms(2) have zero: "dict_get d ''new'' 0 = 0" by (simp add: dict_get_None)
    have clamp: "max 0 (0 / 100 - c) = (0::real)" if "0 \<le> c" for c
      using that by simp
    show ?thesis
      using that assms(1) cost savings financials
      by (auto simp add: calculate_savings_isl estimate_isl
          hvac_rightsizing_Some humidity_control_Some vfd_Some window_upgrade_Some
          led_conversion_Some zero clamp split: option.splits)
  qed
  have other: ?thesis if "z \<noteq> ''old''" "z \<noteq> ''new''"
    using that by (simp add: savings financials calculate_savings_isl estimate_isl)
  show ?thesis
  proof (cases "z = ''old''")
    case True
    then show ?thesis by (rule old)
  next
    case not_old: False
    show ?thesis
    proof (cases "z = ''new''")
      case True
      then show ?thesis by (rule new)
    next
      case False
      with not_old show ?thesis by (rule other)
    qed
  qed
qed

theorem missing_zone_is_zero_adoption_witness:
  "[''hvac_rightsizing'' \<mapsto> [''new'' \<mapsto> (25::real)]] ''hvac_rightsizing'' = Some [''new'' \<mapsto> 25] \<and>
   [''new'' \<mapsto> (25::real)] ''old'' = None \<and>
   calculate_savings mfa_tool
       ([''hvac_rightsizing'' \<mapsto> [''new'' \<mapsto> 25]]
          (''hvac_rightsizing'' \<mapsto> [''new'' \<mapsto> 25](''old'' \<mapsto> 0))) =
     calculate_savings mfa_tool [''hvac_rightsizing'' \<mapsto> [''new'' \<mapsto> 25]] \<and>
   \<not> isl (calculate_savings mfa_tool [''hvac_rightsizing'' \<mapsto> [''new'' \<mapsto> 25]]) \<and>
   calculate_hvac_rightsizing_savings mfa_tool [''hvac_rightsizing'' \<mapsto> [''new'' \<mapsto> 25]] =
     new_building_hvac mfa_tool * (30 / 100) * (25 / 100) \<and>
   add_implementation_costs mfa_tool [''hvac_rightsizing'' \<mapsto> [''new'' \<mapsto> 25]]
     implementation_costs 0 = 1700006 / 10"
  using missing_zone_is_zero_adoption
    [where interventions = "[''hvac_rightsizing'' \<mapsto> [''new'' \<mapsto> 25]]"
       and m = "''hvac_rightsizing''" and d = "[''new'' \<mapsto> 25]" and z = "''old''"
       and self = mfa_tool and cost_factors = CostFactors_default
       and savings_results = "projr (calculate_savings mfa_tool Map.empty)"]
  by (simp add: implementation_costs_def dict_get_def mfa_tool_def tool_defs
      BuildingConfig_default_def InterventionConfig_default_def Let_def)

end
